theory Spec2Isabelle
  imports Main "HOL-Library.Word"
begin

section \<open>Block descriptor\<close>

text \<open>
  \<^verbatim>\<open>std::size_t\<close> and \<^verbatim>\<open>void*\<close> are 64-bit values; arithmetic on them wraps.
  The null pointer is the address 0.
\<close>

type_synonym size_t = "64 word"
type_synonym pointer = "64 word"

text \<open>\<^verbatim>\<open>struct memory_block { void *memory; std::size_t size; }\<close>\<close>

record memory_block =
  memory :: pointer
  size_mb :: size_t

text \<open>\<^verbatim>\<open>memory_block(void *mem, std::size_t size) : memory(mem), size(size) {}\<close>\<close>

definition memory_block_mem_size :: "pointer \<Rightarrow> size_t \<Rightarrow> memory_block" where
  "memory_block_mem_size mem sz = \<lparr>memory = mem, size_mb = sz\<rparr>"

text \<open>
  \<^verbatim>\<open>memory_block() : memory_block(nullptr, size) {}\<close>
  The argument \<^verbatim>\<open>size\<close> of the delegated constructor names the member \<^verbatim>\<open>size\<close> of the
  object under construction, which holds no value yet. The model takes what that read
  yields as the parameter \<open>indeterminate\<close>.
\<close>

definition memory_block_default :: "size_t \<Rightarrow> memory_block" where
  "memory_block_default indeterminate = memory_block_mem_size 0 indeterminate"

text \<open>
  \<^verbatim>\<open>memory_block(void *begin, void *end)
    : memory_block(begin, static_cast<char*>(end) - static_cast<char*>(begin)) {}\<close>
  The pointer difference is converted to \<^verbatim>\<open>std::size_t\<close>, that is, taken modulo \<open>2 ^ 64\<close>.
\<close>

definition memory_block_begin_end :: "pointer \<Rightarrow> pointer \<Rightarrow> memory_block" where
  "memory_block_begin_end begin_p end_p = memory_block_mem_size begin_p (end_p - begin_p)"


section \<open>Block stack\<close>

text \<open>
  The class \<^verbatim>\<open>detail::memory_block_stack\<close> declares \<^verbatim>\<open>push\<close>, \<^verbatim>\<open>pop\<close>, \<^verbatim>\<open>steal_top\<close>
  and \<^verbatim>\<open>top\<close>; their bodies are not part of the header. The stack is a list of the
  allocated blocks it links, the top first. An operation whose precondition is violated
  (an assertion in a debug build, undefined otherwise) has the result \<open>None\<close>.
\<close>

type_synonym memory_block_stack = "memory_block list"

text \<open>\<^verbatim>\<open>memory_block_stack() : head_(nullptr) {}\<close>\<close>

definition memory_block_stack_init :: memory_block_stack where
  "memory_block_stack_init = []"

text \<open>\<^verbatim>\<open>bool empty() const { return head_ == nullptr; }\<close>\<close>

definition empty_stack :: "memory_block_stack \<Rightarrow> bool" where
  "empty_stack st = (st = [])"

text \<open>
  \<^verbatim>\<open>memory_block_stack(memory_block_stack &&other) : head_(other.head_)
    { other.head_ = nullptr; }\<close>
  The result is the new stack and what is left of \<open>other\<close>.
\<close>

definition memory_block_stack_move :: "memory_block_stack \<Rightarrow> memory_block_stack \<times> memory_block_stack" where
  "memory_block_stack_move other = (other, [])"

text \<open>
  Modelled from the spec: the body of \<^verbatim>\<open>memory_block_stack::push\<close> is missing. The spec:
  push writes a node header into the start of the block's memory and makes it the new top;
  the node records enough to recover the original allocated block later.
\<close>

definition push :: "memory_block_stack \<Rightarrow> memory_block \<Rightarrow> memory_block_stack" where
  "push st block = block # st"

text \<open>
  Modelled from the spec: the body of \<^verbatim>\<open>memory_block_stack::pop\<close> is missing. The spec:
  precondition non-empty; removes the top node and returns the original allocated block
  descriptor, header-sized prefix included.
\<close>

definition pop :: "memory_block_stack \<Rightarrow> (memory_block \<times> memory_block_stack) option" where
  "pop st = (case st of [] \<Rightarrow> None | block # rest \<Rightarrow> Some (block, rest))"

text \<open>
  Modelled from the spec: the body of \<^verbatim>\<open>memory_block_stack::steal_top\<close> is missing. The
  spec: precondition \<open>other\<close> non-empty; relinks the top node of \<open>other\<close> onto \<open>this\<close>.
  The result is the pair of \<open>this\<close> and \<open>other\<close> after the call.
\<close>

definition steal_top :: "memory_block_stack \<Rightarrow> memory_block_stack \<Rightarrow> (memory_block_stack \<times> memory_block_stack) option" where
  "steal_top this other = (case other of [] \<Rightarrow> None | block # rest \<Rightarrow> Some (block # this, rest))"

text \<open>
  Modelled from the spec: the node type of the stack, and with it the size of the node
  header, is missing. The spec: the usable block is the allocated block minus a fixed
  header-sized prefix reserved for the bookkeeping of the stack. The header size is the
  parameter \<open>offset\<close>.
\<close>

definition inserted_mb :: "size_t \<Rightarrow> memory_block \<Rightarrow> memory_block" where
  "inserted_mb offset block = \<lparr>memory = memory block + offset, size_mb = size_mb block - offset\<rparr>"

text \<open>
  Modelled from the spec: the body of \<^verbatim>\<open>memory_block_stack::top\<close> is missing. The spec:
  precondition non-empty; returns the usable region of the current top block without
  changing the stack.
\<close>

definition top_block :: "size_t \<Rightarrow> memory_block_stack \<Rightarrow> memory_block option" where
  "top_block offset st = (case st of [] \<Rightarrow> None | block # rest \<Rightarrow> Some (inserted_mb offset block))"


section \<open>Block allocator\<close>

text \<open>
  The template parameter \<^verbatim>\<open>BlockAllocator\<close> is a base class of the arena. Its state has
  the type \<open>'s\<close>, and its member functions act on that state. \<^verbatim>\<open>allocate_block\<close> either
  returns a block or throws an exception \<open>'e\<close>; in both cases it may have changed the
  state. Move construction yields the new object and what is left of the source.
\<close>

record ('s, 'e) block_allocator =
  strategy_allocate_block :: "'s \<Rightarrow> ('e + memory_block) \<times> 's"
  strategy_deallocate_block :: "'s \<Rightarrow> memory_block \<Rightarrow> 's"
  strategy_next_block_size :: "'s \<Rightarrow> size_t"
  strategy_move :: "'s \<Rightarrow> 's \<times> 's"


section \<open>Arena\<close>

text \<open>
  \<^verbatim>\<open>class memory_arena : BlockAllocator\<close> with the members
  \<^verbatim>\<open>detail::memory_block_stack used_, cached_; std::size_t no_used_, no_cached_;\<close>
\<close>

record 's memory_arena =
  allocator :: 's
  used :: memory_block_stack
  cached :: memory_block_stack
  no_used :: size_t
  no_cached :: size_t

text \<open>
  \<^verbatim>\<open>explicit memory_arena(allocator_type allocator = allocator_type{})
    : allocator_type(detail::move(allocator)), no_used_(0u), no_cached_(0u) {}\<close>
\<close>

definition memory_arena_init :: "('s, 'e) block_allocator \<Rightarrow> 's \<Rightarrow> 's memory_arena" where
  "memory_arena_init S alloc =
     \<lparr>allocator = fst (strategy_move S alloc),
      used = memory_block_stack_init, cached = memory_block_stack_init,
      no_used = 0, no_cached = 0\<rparr>"

text \<open>
  \<^verbatim>\<open>std::size_t capacity() const
  { FOONATHAN_MEMORY_ASSERT(bool(no_cached_) != cached_.empty());
    return no_cached_ + no_used_; }\<close>
  A failed assertion has the result \<open>None\<close>.
\<close>

definition capacity :: "'s memory_arena \<Rightarrow> size_t option" where
  "capacity a =
     (if (no_cached a \<noteq> 0) \<noteq> empty_stack (cached a) then Some (no_cached a + no_used a) else None)"

text \<open>
  \<^verbatim>\<open>std::size_t size() const
  { FOONATHAN_MEMORY_ASSERT(bool(no_used_) != used_.empty());
    return no_used_; }\<close>
\<close>

definition size_arena :: "'s memory_arena \<Rightarrow> size_t option" where
  "size_arena a =
     (if (no_used a \<noteq> 0) \<noteq> empty_stack (used a) then Some (no_used a) else None)"

text \<open>\<^verbatim>\<open>std::size_t next_block_size() const { return allocator_type::next_block_size(); }\<close>\<close>

definition next_block_size :: "('s, 'e) block_allocator \<Rightarrow> 's memory_arena \<Rightarrow> size_t" where
  "next_block_size S a = strategy_next_block_size S (allocator a)"

text \<open>\<^verbatim>\<open>allocator_type& get_allocator() { return *this; }\<close>\<close>

definition get_allocator :: "'s memory_arena \<Rightarrow> 's" where
  "get_allocator a = allocator a"

text \<open>
  \<^verbatim>\<open>memory_block allocate_block()
  {
      if (capacity() == size())
          used_.push(allocator_type::allocate_block());
      else
      {
          used_.steal_top(cached_);
          --no_cached_;
      }
      ++no_used_;
      return used_.top();
  }\<close>
  The result is \<open>None\<close> when an assertion or a precondition of the stack fails. Otherwise
  it is the exception thrown by the allocator (\<open>Inl\<close>) or the returned block (\<open>Inr\<close>),
  together with the arena after the call. The last two statements, common to both
  branches, are \<open>increment_and_top\<close>.
\<close>

definition increment_and_top ::
  "size_t \<Rightarrow> 's memory_arena \<Rightarrow> (('e + memory_block) \<times> 's memory_arena) option" where
  "increment_and_top offset a1 =
     (let a2 = a1\<lparr>no_used := no_used a1 + 1\<rparr>
      in case top_block offset (used a2) of
           None \<Rightarrow> None
         | Some block \<Rightarrow> Some (Inr block, a2))"

definition allocate_block ::
  "('s, 'e) block_allocator \<Rightarrow> size_t \<Rightarrow> 's memory_arena \<Rightarrow> (('e + memory_block) \<times> 's memory_arena) option" where
  "allocate_block S offset a =
     (case capacity a of None \<Rightarrow> None | Some c \<Rightarrow>
      case size_arena a of None \<Rightarrow> None | Some n \<Rightarrow>
      if c = n then
        (case strategy_allocate_block S (allocator a) of
           (Inl e, s') \<Rightarrow> Some (Inl e, a\<lparr>allocator := s'\<rparr>)
         | (Inr block, s') \<Rightarrow>
             increment_and_top offset (a\<lparr>allocator := s', used := push (used a) block\<rparr>))
      else
        (case steal_top (used a) (cached a) of
           None \<Rightarrow> None
         | Some (u, c') \<Rightarrow>
             increment_and_top offset (a\<lparr>used := u, cached := c', no_cached := no_cached a - 1\<rparr>)))"

text \<open>
  \<^verbatim>\<open>void deallocate_block()
  {
      --no_used_;
      ++no_cached_;
      cached_.steal_top(used_);
  }\<close>
\<close>

definition deallocate_block :: "'s memory_arena \<Rightarrow> 's memory_arena option" where
  "deallocate_block a =
     (let a1 = a\<lparr>no_used := no_used a - 1\<rparr>;
          a2 = a1\<lparr>no_cached := no_cached a1 + 1\<rparr>
      in case steal_top (cached a2) (used a2) of
           None \<Rightarrow> None
         | Some (c, u) \<Rightarrow> Some (a2\<lparr>cached := c, used := u\<rparr>))"

text \<open>
  The loop \<^verbatim>\<open>while (!src.empty()) dst.steal_top(src);\<close> of the destructor and of
  \<^verbatim>\<open>shrink_to_fit\<close>. The result is the pair of \<open>dst\<close> and \<open>src\<close> after the loop.
\<close>

function steal_all :: "memory_block_stack \<Rightarrow> memory_block_stack \<Rightarrow> (memory_block_stack \<times> memory_block_stack) option" where
  "steal_all dst src =
     (if \<not> empty_stack src then
        (case steal_top dst src of
           None \<Rightarrow> None
         | Some (dst', src') \<Rightarrow> steal_all dst' src')
      else Some (dst, src))"
  by pat_completeness auto
termination
  by (relation "measure (\<lambda>(dst, src). length src)")
     (auto simp: steal_top_def empty_stack_def split: list.splits)

text \<open>
  The loop \<^verbatim>\<open>while (!st.empty()) allocator_type::deallocate_block(st.pop());\<close> of the
  destructor and of \<^verbatim>\<open>shrink_to_fit\<close>. The result is the allocator and the stack after
  the loop.
\<close>

function deallocate_all ::
  "('s, 'e) block_allocator \<Rightarrow> 's \<Rightarrow> memory_block_stack \<Rightarrow> ('s \<times> memory_block_stack) option" where
  "deallocate_all S s st =
     (if \<not> empty_stack st then
        (case pop st of
           None \<Rightarrow> None
         | Some (block, st') \<Rightarrow> deallocate_all S (strategy_deallocate_block S s block) st')
      else Some (s, st))"
  by pat_completeness auto
termination
  by (relation "measure (\<lambda>(S, s, st). length st)")
     (auto simp: pop_def empty_stack_def split: list.splits)

text \<open>
  \<^verbatim>\<open>void shrink_to_fit()
  {
      detail::memory_block_stack to_dealloc;
      while (!cached_.empty())
          to_dealloc.steal_top(cached_);
      while (!to_dealloc.empty())
          allocator_type::deallocate_block(to_dealloc.pop());
      no_cached_ = 0u;
  }\<close>
\<close>

definition shrink_to_fit :: "('s, 'e) block_allocator \<Rightarrow> 's memory_arena \<Rightarrow> 's memory_arena option" where
  "shrink_to_fit S a =
     (case steal_all memory_block_stack_init (cached a) of
        None \<Rightarrow> None
      | Some (to_dealloc, c) \<Rightarrow>
          (case deallocate_all S (allocator a) to_dealloc of
             None \<Rightarrow> None
           | Some (s, to_dealloc') \<Rightarrow> Some (a\<lparr>allocator := s, cached := c, no_cached := 0\<rparr>)))"

text \<open>
  \<^verbatim>\<open>~memory_arena()
  {
      while (!cached_.empty())
          used_.steal_top(cached_);
      while (!used_.empty())
          allocator_type::deallocate_block(used_.pop());
  }\<close>
  The arena is gone after the call; the result is the state in which the destructor
  body leaves the allocator.
\<close>

definition memory_arena_dtor :: "('s, 'e) block_allocator \<Rightarrow> 's memory_arena \<Rightarrow> 's option" where
  "memory_arena_dtor S a =
     (case steal_all (used a) (cached a) of
        None \<Rightarrow> None
      | Some (u, c) \<Rightarrow>
          (case deallocate_all S (allocator a) u of
             None \<Rightarrow> None
           | Some (s, u') \<Rightarrow> Some s))"

text \<open>\<^verbatim>\<open>detail::adl_swap(a, b)\<close> exchanges two values.\<close>

definition adl_swap :: "'a \<Rightarrow> 'a \<Rightarrow> 'a \<times> 'a" where
  "adl_swap x y = (y, x)"

text \<open>
  \<^verbatim>\<open>friend void swap(memory_arena &a, memory_arena &b)
  {
      detail::adl_swap(a.used_, b.used_);
      detail::adl_swap(a.cached_, b.cached_);
      detail::adl_swap(a.no_used_, b.no_used_);
      detail::adl_swap(a.no_cached_, b.no_cached_);
  }\<close>
\<close>

definition swap_arena :: "'s memory_arena \<Rightarrow> 's memory_arena \<Rightarrow> 's memory_arena \<times> 's memory_arena" where
  "swap_arena a b =
     (let (ua, ub) = adl_swap (used a) (used b);
          a1 = a\<lparr>used := ua\<rparr>; b1 = b\<lparr>used := ub\<rparr>;
          (ca, cb) = adl_swap (cached a1) (cached b1);
          a2 = a1\<lparr>cached := ca\<rparr>; b2 = b1\<lparr>cached := cb\<rparr>;
          (nua, nub) = adl_swap (no_used a2) (no_used b2);
          a3 = a2\<lparr>no_used := nua\<rparr>; b3 = b2\<lparr>no_used := nub\<rparr>;
          (nca, ncb) = adl_swap (no_cached a3) (no_cached b3)
      in (a3\<lparr>no_cached := nca\<rparr>, b3\<lparr>no_cached := ncb\<rparr>))"

text \<open>
  \<^verbatim>\<open>memory_arena(memory_arena &&other)
    : allocator_type(detail::move(other)),
      used_(detail::move(other)), cached_(detail::move(other)),
      no_used_(other.no_used_), no_cached_(other.no_cached_)
  { other.no_used_ = other.no_cached_ = 0; }\<close>
  The initialisers of \<^verbatim>\<open>used_\<close> and \<^verbatim>\<open>cached_\<close> name the whole arena \<^verbatim>\<open>other\<close>, not its
  stacks. The block stack has no constructor that takes an arena, so the constructor is
  ill-formed, and no program calls it, unless the allocator type, the only base class of
  the arena, supplies a conversion to a block stack. The parameter \<open>as_stack\<close> is that
  conversion, followed by the move constructor of the stack: applied to the allocator of
  \<open>other\<close>, which the first initialiser has moved from, it yields the stack and the state
  in which it leaves that allocator. The stacks of \<open>other\<close> are not mentioned and stay
  where they are. The result is the new arena and what is left of \<open>other\<close>.
\<close>

definition memory_arena_move ::
  "('s, 'e) block_allocator \<Rightarrow> ('s \<Rightarrow> memory_block_stack \<times> 's) \<Rightarrow> 's memory_arena
     \<Rightarrow> 's memory_arena \<times> 's memory_arena" where
  "memory_arena_move S as_stack other =
     (let (alloc_new, alloc_old) = strategy_move S (allocator other);
          (used_new, alloc_old1) = as_stack alloc_old;
          (cached_new, alloc_old2) = as_stack alloc_old1;
          new = \<lparr>allocator = alloc_new, used = used_new, cached = cached_new,
                 no_used = no_used other, no_cached = no_cached other\<rparr>
      in (new, other\<lparr>allocator := alloc_old2, no_used := 0, no_cached := 0\<rparr>))"

text \<open>
  \<^verbatim>\<open>memory_arena& operator=(memory_arena &&other)
  {
      memory_arena tmp(detail::move(other));
      swap(*this, tmp);
      return *this;
  }\<close>
  The temporary is built by the move constructor, so the operator is well-formed for the
  same allocator types only, and is destroyed on return. The result is \<open>this\<close> and
  \<open>other\<close> after the call and the state in which the destructor of the temporary leaves
  its allocator.
\<close>

definition memory_arena_move_assign ::
  "('s, 'e) block_allocator \<Rightarrow> ('s \<Rightarrow> memory_block_stack \<times> 's) \<Rightarrow> 's memory_arena \<Rightarrow> 's memory_arena
     \<Rightarrow> ('s memory_arena \<times> 's memory_arena \<times> 's) option" where
  "memory_arena_move_assign S as_stack this other =
     (let (tmp, other') = memory_arena_move S as_stack other;
          (this', tmp') = swap_arena this tmp
      in case memory_arena_dtor S tmp' of
           None \<Rightarrow> None
         | Some s \<Rightarrow> Some (this', other', s))"


section \<open>Call traces\<close>

text \<open>
  To speak about which calls an arena makes on its allocator, and in which order, an
  allocator is wrapped into one that performs the same calls and appends each of them to
  a log kept in its state. A move of the wrapped allocator takes the log along.
\<close>

datatype 'e call = Allocate_call "'e + memory_block" | Deallocate_call memory_block

record ('s, 'e) traced_state =
  inner :: 's
  calls :: "'e call list"

definition traced :: "('s, 'e) block_allocator \<Rightarrow> (('s, 'e) traced_state, 'e) block_allocator" where
  "traced S =
     \<lparr>strategy_allocate_block =
        (\<lambda>t. case strategy_allocate_block S (inner t) of
               (r, s') \<Rightarrow> (r, \<lparr>inner = s', calls = calls t @ [Allocate_call r]\<rparr>)),
      strategy_deallocate_block =
        (\<lambda>t block. \<lparr>inner = strategy_deallocate_block S (inner t) block,
                     calls = calls t @ [Deallocate_call block]\<rparr>),
      strategy_next_block_size = (\<lambda>t. strategy_next_block_size S (inner t)),
      strategy_move =
        (\<lambda>t. case strategy_move S (inner t) of
               (s_new, s_old) \<Rightarrow> (\<lparr>inner = s_new, calls = calls t\<rparr>, \<lparr>inner = s_old, calls = []\<rparr>))\<rparr>"

text \<open>
  The blocks a log leaves outstanding, in the order of their acquisition (the oldest
  first): a successful allocation adds its block at the end, a deallocation removes the
  latest occurrence of its block.
\<close>

definition remove_last :: "'a \<Rightarrow> 'a list \<Rightarrow> 'a list" where
  "remove_last x xs = rev (remove1 x (rev xs))"

fun record_call :: "memory_block list \<Rightarrow> 'e call \<Rightarrow> memory_block list" where
  "record_call bs (Allocate_call (Inr block)) = bs @ [block]"
| "record_call bs (Allocate_call (Inl e)) = bs"
| "record_call bs (Deallocate_call block) = remove_last block bs"

definition outstanding :: "'e call list \<Rightarrow> memory_block list" where
  "outstanding cs = foldl record_call [] cs"


section \<open>Sequences of operations on one arena\<close>

datatype arena_op = Allocate_block | Deallocate_block | Shrink_to_fit

text \<open>
  A client that calls \<^verbatim>\<open>allocate_block\<close> goes on with the arena whether the call
  returned a block or threw. A sequence stops with \<open>None\<close> at the first call that
  violates a precondition.
\<close>

fun step :: "('s, 'e) block_allocator \<Rightarrow> size_t \<Rightarrow> 's memory_arena \<Rightarrow> arena_op \<Rightarrow> 's memory_arena option" where
  "step S offset a Allocate_block = map_option snd (allocate_block S offset a)"
| "step S offset a Deallocate_block = deallocate_block a"
| "step S offset a Shrink_to_fit = shrink_to_fit S a"

fun run :: "('s, 'e) block_allocator \<Rightarrow> size_t \<Rightarrow> 's memory_arena \<Rightarrow> arena_op list \<Rightarrow> 's memory_arena option" where
  "run S offset a [] = Some a"
| "run S offset a (x # xs) =
     (case step S offset a x of None \<Rightarrow> None | Some a' \<Rightarrow> run S offset a' xs)"

text \<open>
  The counters agree with the stacks, and the number of blocks fits into a counter.
  This implies the two assertions of \<^verbatim>\<open>capacity\<close> and \<^verbatim>\<open>size\<close>.
\<close>

definition arena_inv :: "'s memory_arena \<Rightarrow> bool" where
  "arena_inv a =
     (unat (no_used a) = length (used a) \<and> unat (no_cached a) = length (cached a)
      \<and> length (used a) + length (cached a) < 2 ^ 64)"

text \<open>
  The blocks of the arena are the outstanding blocks of its allocator: read from the
  bottom of \<open>used\<close> to its top and then from the top of \<open>cached\<close> to its bottom, they are
  in the order of their acquisition.
\<close>

definition owns_outstanding :: "('s, 'e) traced_state memory_arena \<Rightarrow> bool" where
  "owns_outstanding a = (outstanding (calls (allocator a)) = rev (used a) @ cached a)"


section \<open>An allocator to run the arena on\<close>

text \<open>
  Blocks of 4096 bytes at increasing addresses, as long as the budget \<open>remaining\<close>
  lasts; a deallocation gives one block back to the budget.
\<close>

datatype alloc_error = Out_of_memory

record bump_state =
  next_address :: pointer
  remaining :: nat

definition bump_allocator :: "(bump_state, alloc_error) block_allocator" where
  "bump_allocator =
     \<lparr>strategy_allocate_block =
        (\<lambda>s. if remaining s = 0 then (Inl Out_of_memory, s)
              else (Inr \<lparr>memory = next_address s, size_mb = 4096\<rparr>,
                    s\<lparr>next_address := next_address s + 4096, remaining := remaining s - 1\<rparr>)),
      strategy_deallocate_block = (\<lambda>s block. s\<lparr>remaining := remaining s + 1\<rparr>),
      strategy_next_block_size = (\<lambda>s. 4096),
      strategy_move = (\<lambda>s. (s, s))\<rparr>"

text \<open>A fresh allocator with a budget of two blocks, and its wrapped form.\<close>

definition two_blocks :: "(bump_state, alloc_error) traced_state" where
  "two_blocks = \<lparr>inner = \<lparr>next_address = 4096, remaining = 2\<rparr>, calls = []\<rparr>"

text \<open>
  The arena after one successful \<^verbatim>\<open>allocate_block\<close> on that allocator, plain and with
  the log, and a second allocator that hands out other addresses.
\<close>

definition one_block :: "bump_state memory_arena" where
  "one_block =
     \<lparr>allocator = \<lparr>next_address = 8192, remaining = 1\<rparr>,
      used = [\<lparr>memory = 4096, size_mb = 4096\<rparr>], cached = [], no_used = 1, no_cached = 0\<rparr>"

definition one_block_traced :: "(bump_state, alloc_error) traced_state memory_arena" where
  "one_block_traced =
     \<lparr>allocator = \<lparr>inner = \<lparr>next_address = 8192, remaining = 1\<rparr>,
                    calls = [Allocate_call (Inr \<lparr>memory = 4096, size_mb = 4096\<rparr>)]\<rparr>,
      used = [\<lparr>memory = 4096, size_mb = 4096\<rparr>], cached = [], no_used = 1, no_cached = 0\<rparr>"

definition other_blocks :: bump_state where
  "other_blocks = \<lparr>next_address = 65536, remaining = 2\<rparr>"

text \<open>
  A conversion of that allocator to a block stack, as
  \<^verbatim>\<open>operator detail::memory_block_stack() const { return {}; }\<close>
  in the allocator class: it yields an empty stack and leaves the allocator alone.
\<close>

definition empty_stack_conversion :: "bump_state \<Rightarrow> memory_block_stack \<times> bump_state" where
  "empty_stack_conversion s = (memory_block_stack_init, s)"

text \<open>The arena with the log after a further \<^verbatim>\<open>deallocate_block\<close>.\<close>

definition one_cached_traced :: "(bump_state, alloc_error) traced_state memory_arena" where
  "one_cached_traced =
     \<lparr>allocator = \<lparr>inner = \<lparr>next_address = 8192, remaining = 1\<rparr>,
                    calls = [Allocate_call (Inr \<lparr>memory = 4096, size_mb = 4096\<rparr>)]\<rparr>,
      used = [], cached = [\<lparr>memory = 4096, size_mb = 4096\<rparr>], no_used = 0, no_cached = 1\<rparr>"


section \<open>The two loops\<close>

declare steal_all.simps [simp del]
declare deallocate_all.simps [simp del]

lemma steal_all_eq: "steal_all dst src = Some (rev src @ dst, [])"
proof (induction src arbitrary: dst)
  case Nil
  show ?case by (subst steal_all.simps) (simp add: empty_stack_def)
next
  case (Cons b bs)
  show ?case
    by (subst steal_all.simps) (simp add: empty_stack_def steal_top_def Cons.IH)
qed

lemma deallocate_all_eq:
  "deallocate_all S s st = Some (foldl (strategy_deallocate_block S) s st, [])"
proof (induction st arbitrary: s)
  case Nil
  show ?case by (subst deallocate_all.simps) (simp add: empty_stack_def)
next
  case (Cons b bs)
  show ?case
    by (subst deallocate_all.simps) (simp add: empty_stack_def pop_def Cons.IH)
qed

lemma shrink_to_fit_eq:
  "shrink_to_fit S a =
     Some (a\<lparr>allocator := foldl (strategy_deallocate_block S) (allocator a) (rev (cached a)),
             cached := [], no_cached := 0\<rparr>)"
  by (simp add: shrink_to_fit_def steal_all_eq deallocate_all_eq memory_block_stack_init_def)

lemma memory_arena_dtor_eq:
  "memory_arena_dtor S a =
     Some (foldl (strategy_deallocate_block S) (allocator a) (rev (cached a) @ used a))"
  by (simp add: memory_arena_dtor_def steal_all_eq deallocate_all_eq)


section \<open>Logs\<close>

lemma calls_foldl_traced:
  "calls (foldl (strategy_deallocate_block (traced S)) t bs) = calls t @ map Deallocate_call bs"
  by (induction bs arbitrary: t) (simp_all add: traced_def)

lemma inner_foldl_traced:
  "inner (foldl (strategy_deallocate_block (traced S)) t bs) =
     foldl (strategy_deallocate_block S) (inner t) bs"
  by (induction bs arbitrary: t) (simp_all add: traced_def)

lemma remove_last_snoc: "remove_last x (xs @ [x]) = xs"
  by (simp add: remove_last_def)

lemma outstanding_snoc: "outstanding (cs @ [c]) = record_call (outstanding cs) c"
  by (simp add: outstanding_def)

lemma outstanding_deallocate_rev:
  "outstanding cs = xs @ ys \<Longrightarrow> outstanding (cs @ map Deallocate_call (rev ys)) = xs"
proof (induction ys arbitrary: cs rule: rev_induct)
  case Nil
  then show ?case by simp
next
  case (snoc y ys)
  have "outstanding (cs @ [Deallocate_call y]) = xs @ ys"
    using snoc.prems by (simp add: outstanding_snoc remove_last_snoc flip: append_assoc)
  from snoc.IH [OF this] show ?case by simp
qed


section \<open>The operations, branch by branch\<close>

lemma increment_and_top_push:
  "used a1 = block # rest \<Longrightarrow>
   increment_and_top offset a1 = Some (Inr (inserted_mb offset block), a1\<lparr>no_used := no_used a1 + 1\<rparr>)"
  by (simp add: increment_and_top_def top_block_def)

lemma allocate_block_grow_ok:
  assumes "capacity a = Some c" and "size_arena a = Some c"
    and "strategy_allocate_block S (allocator a) = (Inr block, s')"
  shows "allocate_block S offset a =
           Some (Inr (inserted_mb offset block),
                 a\<lparr>allocator := s', used := block # used a, no_used := no_used a + 1\<rparr>)"
  using assms by (simp add: allocate_block_def increment_and_top_push push_def)

lemma allocate_block_grow_fail:
  assumes "capacity a = Some c" and "size_arena a = Some c"
    and "strategy_allocate_block S (allocator a) = (Inl e, s')"
  shows "allocate_block S offset a = Some (Inl e, a\<lparr>allocator := s'\<rparr>)"
  using assms by (simp add: allocate_block_def)

lemma capacity_SomeD:
  "capacity a = Some c \<Longrightarrow> c = no_cached a + no_used a \<and> (no_cached a = 0 \<longleftrightarrow> cached a = [])"
  by (auto simp: capacity_def empty_stack_def split: if_splits)

lemma size_arena_SomeD:
  "size_arena a = Some n \<Longrightarrow> n = no_used a \<and> (no_used a = 0 \<longleftrightarrow> used a = [])"
  by (auto simp: size_arena_def empty_stack_def split: if_splits)

lemma allocate_block_reuse:
  assumes "capacity a = Some c" and "size_arena a = Some n" and "c \<noteq> n"
  shows "\<exists>block rest. cached a = block # rest \<and>
           allocate_block S offset a =
             Some (Inr (inserted_mb offset block),
                   a\<lparr>used := block # used a, cached := rest,
                     no_cached := no_cached a - 1, no_used := no_used a + 1\<rparr>)"
proof -
  from assms have "no_cached a \<noteq> 0"
    by (auto dest!: capacity_SomeD size_arena_SomeD)
  with assms(1) have "cached a \<noteq> []"
    by (auto dest!: capacity_SomeD)
  then obtain block rest where c: "cached a = block # rest"
    by (cases "cached a") auto
  with assms show ?thesis
    by (simp add: allocate_block_def steal_top_def increment_and_top_push)
qed

lemma deallocate_block_eq:
  "used a = block # rest \<Longrightarrow>
   deallocate_block a =
     Some (a\<lparr>used := rest, cached := block # cached a,
             no_used := no_used a - 1, no_cached := no_cached a + 1\<rparr>)"
  by (simp add: deallocate_block_def steal_top_def)

lemma deallocate_block_empty: "used a = [] \<Longrightarrow> deallocate_block a = None"
  by (simp add: deallocate_block_def steal_top_def)

lemma arena_inv_capacity: "arena_inv a \<Longrightarrow> capacity a = Some (no_cached a + no_used a)"
  by (auto simp: arena_inv_def capacity_def empty_stack_def unat_eq_zero)

lemma arena_inv_size: "arena_inv a \<Longrightarrow> size_arena a = Some (no_used a)"
  by (auto simp: arena_inv_def size_arena_def empty_stack_def unat_eq_zero)

lemma unat_plus_one: "unat (w :: size_t) + 1 < 2 ^ 64 \<Longrightarrow> unat (w + 1) = unat w + 1"
  by (simp add: unat_word_ariths)

lemma unat_minus_one': "unat (w :: size_t) = Suc n \<Longrightarrow> unat (w - 1) = n"
  by (metis diff_Suc_1 unat_minus_one unat_eq_zero nat.distinct(1) unsigned_0)


section \<open>The arena owns the outstanding blocks of its allocator\<close>

lemma strategy_allocate_block_traced:
  "strategy_allocate_block S (inner t) = (r, s') \<Longrightarrow>
   strategy_allocate_block (traced S) t = (r, \<lparr>inner = s', calls = calls t @ [Allocate_call r]\<rparr>)"
  by (simp add: traced_def)

lemma capacity_eq_size_iff:
  "capacity a = Some c \<Longrightarrow> size_arena a = Some n \<Longrightarrow> c = n \<longleftrightarrow> cached a = []"
  by (auto dest!: capacity_SomeD size_arena_SomeD)

lemma allocate_block_owns:
  assumes "allocate_block (traced S) offset a = Some (r, a')" and "owns_outstanding a"
  shows "owns_outstanding a'"
proof -
  from assms(1) obtain c n where c: "capacity a = Some c" and n: "size_arena a = Some n"
    by (auto simp: allocate_block_def split: option.splits)
  obtain q s' where q: "strategy_allocate_block S (inner (allocator a)) = (q, s')"
    by (cases "strategy_allocate_block S (inner (allocator a))") auto
  note t = strategy_allocate_block_traced [OF q]
  show ?thesis
  proof (cases "c = n")
    case True
    then have e: "cached a = []"
      using capacity_eq_size_iff [OF c n] by simp
    show ?thesis
    proof (cases q)
      case (Inl e)
      with allocate_block_grow_fail [of a c "traced S" e _ offset] c n True t assms
      show ?thesis
        by (auto simp: owns_outstanding_def outstanding_snoc)
    next
      case (Inr block)
      with allocate_block_grow_ok [of a c "traced S" block _ offset] c n True t assms e
      show ?thesis
        by (auto simp: owns_outstanding_def outstanding_snoc)
    qed
  next
    case False
    from allocate_block_reuse [OF c n False, of "traced S" offset] assms
    show ?thesis
      by (auto simp: owns_outstanding_def)
  qed
qed

lemma deallocate_block_owns:
  assumes "deallocate_block a = Some a'" and "owns_outstanding a"
  shows "owns_outstanding a'"
proof (cases "used a")
  case Nil
  with assms show ?thesis by (simp add: deallocate_block_empty)
next
  case (Cons block rest)
  with assms deallocate_block_eq [OF Cons] show ?thesis
    by (auto simp: owns_outstanding_def)
qed

lemma shrink_to_fit_owns:
  assumes "shrink_to_fit (traced S) a = Some a'" and "owns_outstanding a"
  shows "owns_outstanding a'"
  using assms
  by (auto simp: shrink_to_fit_eq owns_outstanding_def calls_foldl_traced
      intro: outstanding_deallocate_rev)

lemma step_owns:
  "step (traced S) offset a x = Some a' \<Longrightarrow> owns_outstanding a \<Longrightarrow> owns_outstanding a'"
  by (cases x) (auto intro: allocate_block_owns deallocate_block_owns shrink_to_fit_owns)

lemma run_owns:
  "run (traced S) offset a xs = Some a' \<Longrightarrow> owns_outstanding a \<Longrightarrow> owns_outstanding a'"
proof (induction xs arbitrary: a)
  case Nil
  then show ?case by simp
next
  case (Cons x xs)
  then show ?case
    by (auto split: option.splits dest: step_owns)
qed

lemma memory_arena_init_owns:
  "calls t = [] \<Longrightarrow> owns_outstanding (memory_arena_init (traced S) t)"
  by (simp add: owns_outstanding_def memory_arena_init_def traced_def outstanding_def
      memory_block_stack_init_def split: prod.splits)


section \<open>The counters agree with the stacks\<close>

lemma deallocate_block_arena_inv:
  assumes "arena_inv a" and "used a = block # rest"
  shows "arena_inv (a\<lparr>used := rest, cached := block # cached a,
                       no_used := no_used a - 1, no_cached := no_cached a + 1\<rparr>)"
proof -
  from assms have u: "unat (no_used a - 1) = length rest"
    by (simp add: arena_inv_def unat_minus_one')
  from assms have "unat (no_cached a) + 1 < 2 ^ 64"
    by (simp add: arena_inv_def)
  then have c: "unat (no_cached a + 1) = unat (no_cached a) + 1"
    by (rule unat_plus_one)
  from assms u c show ?thesis
    by (simp add: arena_inv_def)
qed

lemma allocate_block_reuse_arena_inv:
  assumes "arena_inv a" and "cached a = block # rest"
  shows "arena_inv (a\<lparr>used := block # used a, cached := rest,
                       no_cached := no_cached a - 1, no_used := no_used a + 1\<rparr>)"
proof -
  from assms have c: "unat (no_cached a - 1) = length rest"
    by (simp add: arena_inv_def unat_minus_one')
  from assms have "unat (no_used a) + 1 < 2 ^ 64"
    by (simp add: arena_inv_def)
  then have u: "unat (no_used a + 1) = unat (no_used a) + 1"
    by (rule unat_plus_one)
  from assms u c show ?thesis
    by (simp add: arena_inv_def)
qed

lemma allocate_block_grow_arena_inv:
  assumes "arena_inv a" and "length (used a) + length (cached a) + 1 < 2 ^ 64"
  shows "arena_inv (a\<lparr>allocator := s', used := block # used a, no_used := no_used a + 1\<rparr>)"
proof -
  from assms have "unat (no_used a) + 1 < 2 ^ 64"
    by (simp add: arena_inv_def)
  then have u: "unat (no_used a + 1) = unat (no_used a) + 1"
    by (rule unat_plus_one)
  from assms u show ?thesis
    by (simp add: arena_inv_def)
qed

lemma arena_inv_counters:
  "arena_inv a \<Longrightarrow> (no_used a = 0 \<longleftrightarrow> used a = []) \<and> (no_cached a = 0 \<longleftrightarrow> cached a = [])"
  by (auto simp: arena_inv_def unat_eq_zero)

text \<open>Progress: in a consistent arena, a call fails only by its own precondition.\<close>

lemma allocate_block_progress:
  assumes "arena_inv a" and "length (used a) + length (cached a) + 1 < 2 ^ 64"
  shows "\<exists>r a'. allocate_block S offset a = Some (r, a') \<and> arena_inv a'
           \<and> length (used a') + length (cached a') \<le> length (used a) + length (cached a) + 1"
proof -
  note c = arena_inv_capacity [OF assms(1)] and n = arena_inv_size [OF assms(1)]
  obtain q s' where q: "strategy_allocate_block S (allocator a) = (q, s')"
    by (cases "strategy_allocate_block S (allocator a)") auto
  show ?thesis
  proof (cases "cached a")
    case Nil
    with assms(1) have z: "no_cached a = 0"
      by (simp add: arena_inv_counters)
    show ?thesis
    proof (cases q)
      case (Inl e)
      with allocate_block_grow_fail [of a "no_used a" S e s' offset] c n z q assms(1)
      show ?thesis by (simp add: arena_inv_def)
    next
      case (Inr block)
      with allocate_block_grow_ok [of a "no_used a" S block s' offset] c n z q
        allocate_block_grow_arena_inv [OF assms, where s' = s' and block = block]
      show ?thesis by simp
    qed
  next
    case (Cons block rest)
    with assms(1) have "no_cached a \<noteq> 0"
      by (simp add: arena_inv_counters)
    then have "no_cached a + no_used a \<noteq> no_used a"
      by simp
    from allocate_block_reuse [OF c n this, of S offset] Cons
      allocate_block_reuse_arena_inv [OF assms(1) Cons]
    show ?thesis by auto
  qed
qed

lemma deallocate_block_progress:
  assumes "arena_inv a" and "used a \<noteq> []"
  shows "\<exists>a'. deallocate_block a = Some a' \<and> arena_inv a'
           \<and> length (used a') + length (cached a') = length (used a) + length (cached a)"
proof -
  from assms(2) obtain block rest where u: "used a = block # rest"
    by (cases "used a") auto
  from deallocate_block_eq [OF u] deallocate_block_arena_inv [OF assms(1) u] u
  show ?thesis by simp
qed

lemma shrink_to_fit_progress:
  assumes "arena_inv a"
  shows "\<exists>a'. shrink_to_fit S a = Some a' \<and> arena_inv a'
           \<and> length (used a') + length (cached a') \<le> length (used a) + length (cached a)"
  using assms by (simp add: shrink_to_fit_eq arena_inv_def)

lemma step_arena_inv:
  assumes "step S offset a x = Some a'" and "arena_inv a"
    and "length (used a) + length (cached a) + 1 < 2 ^ 64"
  shows "arena_inv a' \<and> length (used a') + length (cached a') \<le> length (used a) + length (cached a) + 1"
proof (cases x)
  case Allocate_block
  with assms allocate_block_progress [OF assms(2,3), of S offset] show ?thesis
    by auto
next
  case Deallocate_block
  with assms have "used a \<noteq> []"
    by (auto simp: deallocate_block_empty)
  from deallocate_block_progress [OF assms(2) this] Deallocate_block assms(1)
  show ?thesis by auto
next
  case Shrink_to_fit
  with assms shrink_to_fit_progress [OF assms(2), of S] show ?thesis
    by auto
qed

lemma run_arena_inv:
  "run S offset a xs = Some a' \<Longrightarrow> arena_inv a \<Longrightarrow>
   length (used a) + length (cached a) + length xs < 2 ^ 64 \<Longrightarrow> arena_inv a'"
proof (induction xs arbitrary: a)
  case Nil
  then show ?case by simp
next
  case (Cons x xs)
  from Cons.prems(1) obtain a1 where s: "step S offset a x = Some a1"
    and r: "run S offset a1 xs = Some a'"
    by (auto split: option.splits)
  from Cons.prems(3) have "length (used a) + length (cached a) + 1 < 2 ^ 64"
    by simp
  from step_arena_inv [OF s Cons.prems(2) this] Cons.prems(3)
  have "arena_inv a1" and "length (used a1) + length (cached a1) + length xs < 2 ^ 64"
    by auto
  with Cons.IH [OF r] show ?case by simp
qed

lemma memory_arena_init_arena_inv: "arena_inv (memory_arena_init S s)"
  by (simp add: arena_inv_def memory_arena_init_def memory_block_stack_init_def)


section \<open>Move and swap\<close>

lemma swap_arena_eq:
  "swap_arena a b =
     (a\<lparr>used := used b, cached := cached b, no_used := no_used b, no_cached := no_cached b\<rparr>,
      b\<lparr>used := used a, cached := cached a, no_used := no_used a, no_cached := no_cached a\<rparr>)"
  by (simp add: swap_arena_def adl_swap_def)

lemma swap_arena_inv:
  "arena_inv a \<Longrightarrow> arena_inv b \<Longrightarrow>
   arena_inv (fst (swap_arena a b)) \<and> arena_inv (snd (swap_arena a b))"
  by (simp add: swap_arena_eq arena_inv_def)

lemma memory_arena_move_eq:
  "memory_arena_move S as_stack other =
     (\<lparr>allocator = fst (strategy_move S (allocator other)),
       used = fst (as_stack (snd (strategy_move S (allocator other)))),
       cached = fst (as_stack (snd (as_stack (snd (strategy_move S (allocator other)))))),
       no_used = no_used other, no_cached = no_cached other\<rparr>,
      other\<lparr>allocator := snd (as_stack (snd (as_stack (snd (strategy_move S (allocator other)))))),
             no_used := 0, no_cached := 0\<rparr>)"
  by (simp add: memory_arena_move_def Let_def split: prod.splits)

text \<open>
  Whatever the conversion is, the stacks of the source stay in the source, whose counters
  become 0; a source that held a block no longer passes the assertions.
\<close>

lemma memory_arena_move_source:
  "used (snd (memory_arena_move S as_stack other)) = used other
   \<and> cached (snd (memory_arena_move S as_stack other)) = cached other
   \<and> no_used (snd (memory_arena_move S as_stack other)) = 0
   \<and> no_cached (snd (memory_arena_move S as_stack other)) = 0"
  by (simp add: memory_arena_move_eq)

lemma memory_arena_move_source_assertions:
  "used other \<noteq> [] \<Longrightarrow> size_arena (snd (memory_arena_move S as_stack other)) = None"
  "cached other \<noteq> [] \<Longrightarrow> capacity (snd (memory_arena_move S as_stack other)) = None"
  by (simp_all add: memory_arena_move_eq size_arena_def capacity_def empty_stack_def)

lemma memory_arena_move_assign_eq:
  "memory_arena_move_assign S as_stack this other =
     Some (this\<lparr>used := used (fst (memory_arena_move S as_stack other)),
                 cached := cached (fst (memory_arena_move S as_stack other)),
                 no_used := no_used other, no_cached := no_cached other\<rparr>,
           snd (memory_arena_move S as_stack other),
           foldl (strategy_deallocate_block S) (fst (strategy_move S (allocator other)))
             (rev (cached this) @ used this))"
  by (simp add: memory_arena_move_assign_def memory_arena_move_eq swap_arena_eq
      memory_arena_dtor_eq)


section \<open>Capacity and outstanding blocks on one arena\<close>

lemma run_capacity_outstanding:
  assumes "calls t = []"
    and "run (traced S) offset (memory_arena_init (traced S) t) ops = Some a"
    and "length ops < 2 ^ 64"
  shows "arena_inv a \<and> capacity a = Some (no_cached a + no_used a)
         \<and> unat (no_cached a + no_used a) = length (outstanding (calls (allocator a)))"
proof -
  have "arena_inv (memory_arena_init (traced S) t)"
    by (rule memory_arena_init_arena_inv)
  moreover have "length (used (memory_arena_init (traced S) t))
      + length (cached (memory_arena_init (traced S) t)) + length ops < 2 ^ 64"
    using assms(3) by (simp add: memory_arena_init_def memory_block_stack_init_def)
  ultimately have i: "arena_inv a"
    by (rule run_arena_inv [OF assms(2)])
  from run_owns [OF assms(2) memory_arena_init_owns [OF assms(1)]]
  have o: "outstanding (calls (allocator a)) = rev (used a) @ cached a"
    by (simp add: owns_outstanding_def)
  from i have "unat (no_cached a) + unat (no_used a) < 2 ^ 64"
    by (simp add: arena_inv_def)
  then have "unat (no_cached a + no_used a) = unat (no_cached a) + unat (no_used a)"
    by (simp add: unat_word_ariths)
  with i o arena_inv_capacity [OF i] show ?thesis
    by (simp add: arena_inv_def)
qed


section \<open>Block descriptors\<close>

lemma memory_block_mem_size_fields:
  "memory (memory_block_mem_size mem sz) = mem \<and> size_mb (memory_block_mem_size mem sz) = sz"
  by (simp add: memory_block_mem_size_def)

lemma memory_block_begin_end_fields:
  "begin_p \<le> end_p \<Longrightarrow>
   memory (memory_block_begin_end begin_p end_p) = begin_p
   \<and> unat (size_mb (memory_block_begin_end begin_p end_p)) = unat end_p - unat begin_p"
  by (simp add: memory_block_begin_end_def memory_block_mem_size_def unat_sub)

section \<open>Claims\<close>

text \<open>
  C1: In every reachable arena state, \<^verbatim>\<open>capacity()\<close> equals \<^verbatim>\<open>size()\<close> plus the cached
  count, a counter is 0 iff its stack is empty, and \<^verbatim>\<open>capacity()\<close> never exceeds the
  number of blocks obtained from the strategy and not yet returned; every arena operation
  (\<^verbatim>\<open>allocate_block\<close>, \<^verbatim>\<open>deallocate_block\<close>, \<^verbatim>\<open>shrink_to_fit\<close>, move, swap) preserves this.

  On one arena this holds (\<open>run_capacity_outstanding\<close>), and swap keeps the counters
  in agreement with the stacks (\<open>swap_arena_inv\<close>). But \<^verbatim>\<open>swap\<close> leaves each allocator
  where it is: an arena that holds one block of its
  allocator is swapped with a fresh arena on a second allocator. Both own the outstanding
  blocks of their allocators before the call. Afterwards the second arena has capacity 1,
  and its allocator has no block outstanding.
\<close>

theorem swap_arena_breaks_ownership:
  "run (traced bump_allocator) 16 (memory_arena_init (traced bump_allocator) two_blocks) [Allocate_block]
     = Some one_block_traced
   \<and> owns_outstanding one_block_traced
   \<and> owns_outstanding (memory_arena_init (traced bump_allocator) \<lparr>inner = other_blocks, calls = []\<rparr>)
   \<and> capacity (snd (swap_arena one_block_traced
        (memory_arena_init (traced bump_allocator) \<lparr>inner = other_blocks, calls = []\<rparr>))) = Some 1
   \<and> outstanding (calls (allocator (snd (swap_arena one_block_traced
        (memory_arena_init (traced bump_allocator) \<lparr>inner = other_blocks, calls = []\<rparr>))))) = []"
  by code_simp

text \<open>
  C2: For every sequence of arena operations obeying the stack discipline, destroying the
  arena calls \<^verbatim>\<open>deallocate_block\<close> of the allocator exactly once for each block the
  arena still owns (all of \<open>used\<close> and all of \<open>cached\<close>), with no block leaked or released
  twice, and the calls occur in strict reverse of the order in which the blocks were
  acquired; the destructor first drains \<open>cached\<close> onto \<open>used\<close> and then pops \<open>used\<close>
  completely.

  The arena starts empty on an allocator with an empty log and runs any sequence of
  \<^verbatim>\<open>allocate_block\<close>, \<^verbatim>\<open>deallocate_block\<close> and \<^verbatim>\<open>shrink_to_fit\<close> in which no call
  violates a precondition. Then the destructor returns; its first loop leaves
  \<open>rev cached @ used\<close> in \<open>used\<close>; the calls it appends to the log are the deallocations of
  exactly these blocks, top first; this list is the reverse of the outstanding blocks of
  the log in their order of acquisition; and the log leaves no block outstanding.
\<close>

theorem memory_arena_dtor_reverse_acquisition:
  assumes "calls t = []"
    and "run (traced S) offset (memory_arena_init (traced S) t) ops = Some a"
  shows "\<exists>t'. memory_arena_dtor (traced S) a = Some t'
           \<and> steal_all (used a) (cached a) = Some (rev (cached a) @ used a, [])
           \<and> calls t' = calls (allocator a) @ map Deallocate_call (rev (cached a) @ used a)
           \<and> rev (cached a) @ used a = rev (outstanding (calls (allocator a)))
           \<and> outstanding (calls t') = []"
proof -
  from run_owns [OF assms(2) memory_arena_init_owns [OF assms(1)]]
  have o: "outstanding (calls (allocator a)) = rev (used a) @ cached a"
    by (simp add: owns_outstanding_def)
  have "outstanding (calls (allocator a)) = [] @ (rev (used a) @ cached a)"
    using o by simp
  from outstanding_deallocate_rev [OF this]
  have e: "outstanding (calls (allocator a) @ map Deallocate_call (rev (cached a) @ used a)) = []"
    by simp
  show ?thesis
    using o e by (simp add: memory_arena_dtor_eq steal_all_eq calls_foldl_traced)
qed

theorem memory_arena_dtor_reverse_acquisition_witness:
  "calls two_blocks = [] \<and>
   (\<exists>a. run (traced bump_allocator) 16 (memory_arena_init (traced bump_allocator) two_blocks)
          [Allocate_block, Allocate_block, Allocate_block, Deallocate_block] = Some a
      \<and> cached a = [\<lparr>memory = 8192, size_mb = 4096\<rparr>] \<and> used a = [\<lparr>memory = 4096, size_mb = 4096\<rparr>]
      \<and> (\<exists>t'. memory_arena_dtor (traced bump_allocator) a = Some t'
           \<and> steal_all (used a) (cached a) = Some (rev (cached a) @ used a, [])
           \<and> calls t' = calls (allocator a) @ map Deallocate_call (rev (cached a) @ used a)
           \<and> rev (cached a) @ used a = rev (outstanding (calls (allocator a)))
           \<and> outstanding (calls t') = []))"
proof -
  have c: "calls two_blocks = []"
    by (simp add: two_blocks_def)
  have r: "run (traced bump_allocator) 16 (memory_arena_init (traced bump_allocator) two_blocks)
            [Allocate_block, Allocate_block, Allocate_block, Deallocate_block] =
           Some \<lparr>allocator = \<lparr>inner = \<lparr>next_address = 12288, remaining = 0\<rparr>,
                   calls = [Allocate_call (Inr \<lparr>memory = 4096, size_mb = 4096\<rparr>),
                            Allocate_call (Inr \<lparr>memory = 8192, size_mb = 4096\<rparr>),
                            Allocate_call (Inl Out_of_memory)]\<rparr>,
                 used = [\<lparr>memory = 4096, size_mb = 4096\<rparr>],
                 cached = [\<lparr>memory = 8192, size_mb = 4096\<rparr>], no_used = 1, no_cached = 1\<rparr>"
    by code_simp
  from memory_arena_dtor_reverse_acquisition [OF c r] c r show ?thesis
    by simp
qed

text \<open>
  C3: For every reachable arena state, \<^verbatim>\<open>shrink_to_fit\<close> drives the cached count to 0,
  calls \<^verbatim>\<open>deallocate_block\<close> of the allocator exactly once per block of the cached stack
  and on no other block, and the calls occur in exact reverse of the order in which the
  blocks were acquired.

  In a state reached as in C2, \<^verbatim>\<open>shrink_to_fit\<close> returns, empties \<open>cached\<close>, sets its
  counter to 0 and leaves \<open>used\<close> and its counter alone. The calls appended to the log are
  the deallocations of \<open>rev cached\<close>. The outstanding blocks, in their order of
  acquisition, end with \<open>cached\<close>, so these calls are in reverse order of acquisition, and
  afterwards exactly the blocks of \<open>used\<close> are outstanding.
\<close>

theorem shrink_to_fit_reverse_acquisition:
  assumes "calls t = []"
    and "run (traced S) offset (memory_arena_init (traced S) t) ops = Some a"
  shows "\<exists>a'. shrink_to_fit (traced S) a = Some a'
           \<and> no_cached a' = 0 \<and> cached a' = [] \<and> used a' = used a \<and> no_used a' = no_used a
           \<and> calls (allocator a') = calls (allocator a) @ map Deallocate_call (rev (cached a))
           \<and> outstanding (calls (allocator a)) = rev (used a) @ cached a
           \<and> outstanding (calls (allocator a')) = rev (used a)"
proof -
  from run_owns [OF assms(2) memory_arena_init_owns [OF assms(1)]]
  have o: "outstanding (calls (allocator a)) = rev (used a) @ cached a"
    by (simp add: owns_outstanding_def)
  from outstanding_deallocate_rev [OF o]
  have "outstanding (calls (allocator a) @ map Deallocate_call (rev (cached a))) = rev (used a)" .
  with o show ?thesis
    by (simp add: shrink_to_fit_eq calls_foldl_traced)
qed

theorem shrink_to_fit_reverse_acquisition_witness:
  "calls two_blocks = [] \<and>
   (\<exists>a. run (traced bump_allocator) 16 (memory_arena_init (traced bump_allocator) two_blocks)
          [Allocate_block, Allocate_block, Deallocate_block, Deallocate_block] = Some a
      \<and> cached a = [\<lparr>memory = 4096, size_mb = 4096\<rparr>, \<lparr>memory = 8192, size_mb = 4096\<rparr>]
      \<and> (\<exists>a'. shrink_to_fit (traced bump_allocator) a = Some a'
           \<and> no_cached a' = 0 \<and> cached a' = [] \<and> used a' = used a \<and> no_used a' = no_used a
           \<and> calls (allocator a') = calls (allocator a) @ map Deallocate_call (rev (cached a))
           \<and> outstanding (calls (allocator a)) = rev (used a) @ cached a
           \<and> outstanding (calls (allocator a')) = rev (used a)))"
proof -
  have c: "calls two_blocks = []"
    by (simp add: two_blocks_def)
  have r: "run (traced bump_allocator) 16 (memory_arena_init (traced bump_allocator) two_blocks)
            [Allocate_block, Allocate_block, Deallocate_block, Deallocate_block] =
           Some \<lparr>allocator = \<lparr>inner = \<lparr>next_address = 12288, remaining = 0\<rparr>,
                   calls = [Allocate_call (Inr \<lparr>memory = 4096, size_mb = 4096\<rparr>),
                            Allocate_call (Inr \<lparr>memory = 8192, size_mb = 4096\<rparr>)]\<rparr>,
                 used = [],
                 cached = [\<lparr>memory = 4096, size_mb = 4096\<rparr>, \<lparr>memory = 8192, size_mb = 4096\<rparr>],
                 no_used = 0, no_cached = 2\<rparr>"
    by code_simp
  from shrink_to_fit_reverse_acquisition [OF c r] c r show ?thesis
    by simp
qed

text \<open>
  C4: For every arena state with \<open>used\<close> non-empty, \<^verbatim>\<open>deallocate_block\<close> followed by
  \<^verbatim>\<open>allocate_block\<close> returns a usable region at the same address and of the same size as
  the block just deallocated, and the allocator is not called.

  In a state whose counters agree with its stacks, the first call returns, and the second
  one returns the region that \<open>top\<close> gave before, in the very state the arena had before
  the two calls; the allocator, whatever it is, is in that state too.
\<close>

theorem deallocate_then_allocate_reuses_block:
  assumes "arena_inv a" and "used a \<noteq> []"
  shows "\<exists>a1 r. deallocate_block a = Some a1 \<and> top_block offset (used a) = Some r
           \<and> allocate_block S offset a1 = Some (Inr r, a)"
proof -
  from assms(2) obtain block rest where u: "used a = block # rest"
    by (cases "used a") auto
  define a1 where "a1 = a\<lparr>used := rest, cached := block # cached a,
                          no_used := no_used a - 1, no_cached := no_cached a + 1\<rparr>"
  have d: "deallocate_block a = Some a1"
    using deallocate_block_eq [OF u] by (simp add: a1_def)
  have i: "arena_inv a1"
    using deallocate_block_arena_inv [OF assms(1) u] by (simp add: a1_def)
  have "no_cached a1 \<noteq> 0"
    using i by (simp add: arena_inv_counters) (simp add: a1_def)
  then have "no_cached a1 + no_used a1 \<noteq> no_used a1"
    by simp
  from allocate_block_reuse [OF arena_inv_capacity [OF i] arena_inv_size [OF i] this, of S offset]
  have "allocate_block S offset a1 = Some (Inr (inserted_mb offset block), a)"
    using u by (simp add: a1_def)
  with d u show ?thesis
    by (simp add: top_block_def)
qed

theorem deallocate_then_allocate_reuses_block_witness:
  "arena_inv one_block_traced \<and> used one_block_traced \<noteq> []
   \<and> (\<exists>a1 r. deallocate_block one_block_traced = Some a1
         \<and> top_block 16 (used one_block_traced) = Some r
         \<and> r = \<lparr>memory = 4112, size_mb = 4080\<rparr>
         \<and> allocate_block (traced bump_allocator) 16 a1 = Some (Inr r, one_block_traced))"
proof -
  have i: "arena_inv one_block_traced"
    by (simp add: arena_inv_def one_block_traced_def)
  have u: "used one_block_traced \<noteq> []"
    by (simp add: one_block_traced_def)
  have t: "top_block 16 (used one_block_traced) = Some \<lparr>memory = 4112, size_mb = 4080\<rparr>"
    by (simp add: one_block_traced_def top_block_def inserted_mb_def)
  from deallocate_then_allocate_reuses_block [OF i u, of 16 "traced bump_allocator"] i u t
  show ?thesis by auto
qed

text \<open>
  C5: For every arena state, if \<^verbatim>\<open>capacity() == size()\<close> then \<^verbatim>\<open>allocate_block\<close> calls
  \<^verbatim>\<open>allocate_block\<close> of the allocator exactly once and pushes the result onto \<open>used\<close>,
  otherwise it moves one block from \<open>cached\<close> to \<open>used\<close> by \<^verbatim>\<open>steal_top\<close>, decrements the
  cached counter and makes no call on the allocator; in both branches it increments the
  used counter and returns \<^verbatim>\<open>used_.top()\<close>.

  The state passes the two assertions, and \<open>(q, s')\<close> is what the allocator answers in
  this state. On the growth branch the log grows by this one call, and a returned block
  is pushed; an exception \<open>Inl e\<close> leaves the function at once. On the other branch the
  allocator and its log are unchanged.
\<close>

theorem allocate_block_branches:
  assumes "capacity a = Some c" and "size_arena a = Some n"
    and "strategy_allocate_block S (inner (allocator a)) = (q, s')"
  shows "\<exists>r a'. allocate_block (traced S) offset a = Some (r, a') \<and>
     (if c = n then
        allocator a' = \<lparr>inner = s', calls = calls (allocator a) @ [Allocate_call q]\<rparr>
        \<and> cached a' = cached a \<and> no_cached a' = no_cached a
        \<and> (case q of
              Inl e \<Rightarrow> r = Inl e \<and> used a' = used a \<and> no_used a' = no_used a
            | Inr block \<Rightarrow> used a' = push (used a) block \<and> no_used a' = no_used a + 1
                \<and> (\<exists>u. top_block offset (used a') = Some u \<and> r = Inr u))
      else
        allocator a' = allocator a
        \<and> steal_top (used a) (cached a) = Some (used a', cached a')
        \<and> no_cached a' = no_cached a - 1 \<and> no_used a' = no_used a + 1
        \<and> (\<exists>u. top_block offset (used a') = Some u \<and> r = Inr u))"
proof (cases "c = n")
  case True
  note t = strategy_allocate_block_traced [OF assms(3)]
  show ?thesis
  proof (cases q)
    case (Inl e)
    with allocate_block_grow_fail [of a c "traced S" e _ offset] assms(1,2) True t
    show ?thesis by simp
  next
    case (Inr block)
    with allocate_block_grow_ok [of a c "traced S" block _ offset] assms(1,2) True t
    show ?thesis by (simp add: push_def top_block_def)
  qed
next
  case False
  from allocate_block_reuse [OF assms(1,2) False, of "traced S" offset] False
  show ?thesis by (auto simp: steal_top_def top_block_def)
qed

theorem allocate_block_branches_witness:
  "capacity one_block_traced = Some 1 \<and> size_arena one_block_traced = Some 1
   \<and> strategy_allocate_block bump_allocator (inner (allocator one_block_traced))
        = (Inr \<lparr>memory = 8192, size_mb = 4096\<rparr>, \<lparr>next_address = 12288, remaining = 0\<rparr>)
   \<and> allocate_block (traced bump_allocator) 16 one_block_traced
        = Some (Inr \<lparr>memory = 8208, size_mb = 4080\<rparr>,
            \<lparr>allocator = \<lparr>inner = \<lparr>next_address = 12288, remaining = 0\<rparr>,
                 calls = [Allocate_call (Inr \<lparr>memory = 4096, size_mb = 4096\<rparr>),
                          Allocate_call (Inr \<lparr>memory = 8192, size_mb = 4096\<rparr>)]\<rparr>,
             used = [\<lparr>memory = 8192, size_mb = 4096\<rparr>, \<lparr>memory = 4096, size_mb = 4096\<rparr>],
             cached = [], no_used = 2, no_cached = 0\<rparr>)
   \<and> capacity one_cached_traced = Some 1 \<and> size_arena one_cached_traced = Some 0
   \<and> allocate_block (traced bump_allocator) 16 one_cached_traced
        = Some (Inr \<lparr>memory = 4112, size_mb = 4080\<rparr>, one_block_traced)"
proof -
  have c: "capacity one_block_traced = Some 1"
    by (simp add: capacity_def one_block_traced_def empty_stack_def)
  have n: "size_arena one_block_traced = Some 1"
    by (simp add: size_arena_def one_block_traced_def empty_stack_def)
  have s: "strategy_allocate_block bump_allocator (inner (allocator one_block_traced))
             = (Inr \<lparr>memory = 8192, size_mb = 4096\<rparr>, \<lparr>next_address = 12288, remaining = 0\<rparr>)"
    by (simp add: bump_allocator_def one_block_traced_def)
  from allocate_block_branches [OF c n s, of 16] obtain r a'
    where "allocate_block (traced bump_allocator) 16 one_block_traced = Some (r, a')"
      and "allocator a' = \<lparr>inner = \<lparr>next_address = 12288, remaining = 0\<rparr>,
             calls = calls (allocator one_block_traced) @ [Allocate_call (Inr \<lparr>memory = 8192, size_mb = 4096\<rparr>)]\<rparr>"
      and "cached a' = cached one_block_traced" and "no_cached a' = no_cached one_block_traced"
      and "used a' = push (used one_block_traced) \<lparr>memory = 8192, size_mb = 4096\<rparr>"
      and "no_used a' = no_used one_block_traced + 1"
      and "\<exists>u. top_block 16 (used a') = Some u \<and> r = Inr u"
    by auto
  then have grow: "allocate_block (traced bump_allocator) 16 one_block_traced
        = Some (Inr \<lparr>memory = 8208, size_mb = 4080\<rparr>,
            \<lparr>allocator = \<lparr>inner = \<lparr>next_address = 12288, remaining = 0\<rparr>,
                 calls = [Allocate_call (Inr \<lparr>memory = 4096, size_mb = 4096\<rparr>),
                          Allocate_call (Inr \<lparr>memory = 8192, size_mb = 4096\<rparr>)]\<rparr>,
             used = [\<lparr>memory = 8192, size_mb = 4096\<rparr>, \<lparr>memory = 4096, size_mb = 4096\<rparr>],
             cached = [], no_used = 2, no_cached = 0\<rparr>)"
    by (cases a') (auto simp: one_block_traced_def push_def top_block_def inserted_mb_def)
  have c': "capacity one_cached_traced = Some 1"
    by (simp add: capacity_def one_cached_traced_def empty_stack_def)
  have n': "size_arena one_cached_traced = Some 0"
    by (simp add: size_arena_def one_cached_traced_def empty_stack_def)
  have s': "strategy_allocate_block bump_allocator (inner (allocator one_cached_traced))
             = (Inr \<lparr>memory = 8192, size_mb = 4096\<rparr>, \<lparr>next_address = 12288, remaining = 0\<rparr>)"
    by (simp add: bump_allocator_def one_cached_traced_def)
  from allocate_block_branches [OF c' n' s', of 16] obtain r' a''
    where "allocate_block (traced bump_allocator) 16 one_cached_traced = Some (r', a'')"
      and "allocator a'' = allocator one_cached_traced"
      and "steal_top (used one_cached_traced) (cached one_cached_traced) = Some (used a'', cached a'')"
      and "no_cached a'' = no_cached one_cached_traced - 1"
      and "no_used a'' = no_used one_cached_traced + 1"
      and "\<exists>u. top_block 16 (used a'') = Some u \<and> r' = Inr u"
    by auto
  then have reuse: "allocate_block (traced bump_allocator) 16 one_cached_traced
        = Some (Inr \<lparr>memory = 4112, size_mb = 4080\<rparr>, one_block_traced)"
    by (cases a'')
       (auto simp: one_cached_traced_def one_block_traced_def steal_top_def top_block_def
          inserted_mb_def)
  from c n s grow c' n' reuse show ?thesis by simp
qed

text \<open>
  C6: For every arena state in which \<^verbatim>\<open>allocate_block\<close> takes the growth branch and the
  allocator fails, the failure reaches the caller unaltered, and the two stacks and the
  two counters are as they were before the call.
\<close>

theorem allocate_block_failure_atomic:
  assumes "capacity a = Some c" and "size_arena a = Some c"
    and "strategy_allocate_block S (allocator a) = (Inl e, s')"
  shows "\<exists>a'. allocate_block S offset a = Some (Inl e, a')
           \<and> used a' = used a \<and> cached a' = cached a
           \<and> no_used a' = no_used a \<and> no_cached a' = no_cached a \<and> allocator a' = s'"
  using allocate_block_grow_fail [OF assms] by simp

theorem allocate_block_failure_atomic_witness:
  "capacity (one_block\<lparr>allocator := \<lparr>next_address = 8192, remaining = 0\<rparr>\<rparr>) = Some 1
   \<and> size_arena (one_block\<lparr>allocator := \<lparr>next_address = 8192, remaining = 0\<rparr>\<rparr>) = Some 1
   \<and> strategy_allocate_block bump_allocator \<lparr>next_address = 8192, remaining = 0\<rparr>
        = (Inl Out_of_memory, \<lparr>next_address = 8192, remaining = 0\<rparr>)
   \<and> allocate_block bump_allocator 16 (one_block\<lparr>allocator := \<lparr>next_address = 8192, remaining = 0\<rparr>\<rparr>)
        = Some (Inl Out_of_memory, one_block\<lparr>allocator := \<lparr>next_address = 8192, remaining = 0\<rparr>\<rparr>)"
proof -
  let ?a = "one_block\<lparr>allocator := \<lparr>next_address = 8192, remaining = 0\<rparr>\<rparr>"
  have c: "capacity ?a = Some 1"
    by (simp add: capacity_def one_block_def empty_stack_def)
  have n: "size_arena ?a = Some 1"
    by (simp add: size_arena_def one_block_def empty_stack_def)
  have s: "strategy_allocate_block bump_allocator (allocator ?a)
             = (Inl Out_of_memory, \<lparr>next_address = 8192, remaining = 0\<rparr>)"
    by (simp add: bump_allocator_def)
  from allocate_block_failure_atomic [OF c n s, of 16] c n s show ?thesis
    by (auto simp: one_block_def)
qed

text \<open>
  C7: Move construction and move assignment of an arena \<open>a\<close> into \<open>b\<close> transfer both
  stacks, both counters and the allocator, after which \<open>b\<close> gives the results that \<open>a\<close>
  would have given, and \<open>a\<close> is empty and usable.

  The move constructor takes its two stacks from \<^verbatim>\<open>detail::move(other)\<close>, the arena
  itself, and not from the stacks of \<open>other\<close>; it exists only for an allocator type that
  converts to a block stack. With the conversion that yields an empty stack, the arena
  \<open>a\<close> that holds one block is moved. The new arena has the allocator and the counter 1
  of \<open>a\<close> and no block; \<open>a\<close> keeps its block with the counter 0; neither passes the
  assertion of \<^verbatim>\<open>size\<close>. Move assignment to a fresh arena \<open>b\<close> on a second allocator
  gives \<open>b\<close> the same empty stacks and the counter 1, and \<open>b\<close> keeps its own allocator.
\<close>

theorem memory_arena_move_leaves_stacks:
  "run bump_allocator 16 (memory_arena_init bump_allocator \<lparr>next_address = 4096, remaining = 2\<rparr>) [Allocate_block]
     = Some one_block
   \<and> memory_arena_move bump_allocator empty_stack_conversion one_block
     = (\<lparr>allocator = \<lparr>next_address = 8192, remaining = 1\<rparr>, used = [], cached = [],
          no_used = 1, no_cached = 0\<rparr>,
        \<lparr>allocator = \<lparr>next_address = 8192, remaining = 1\<rparr>,
          used = [\<lparr>memory = 4096, size_mb = 4096\<rparr>], cached = [],
          no_used = 0, no_cached = 0\<rparr>)
   \<and> size_arena (fst (memory_arena_move bump_allocator empty_stack_conversion one_block)) = None
   \<and> size_arena (snd (memory_arena_move bump_allocator empty_stack_conversion one_block)) = None
   \<and> memory_arena_move_assign bump_allocator empty_stack_conversion
        (memory_arena_init bump_allocator other_blocks) one_block
     = Some (\<lparr>allocator = other_blocks, used = [], cached = [], no_used = 1, no_cached = 0\<rparr>,
             \<lparr>allocator = \<lparr>next_address = 8192, remaining = 1\<rparr>,
               used = [\<lparr>memory = 4096, size_mb = 4096\<rparr>], cached = [],
               no_used = 0, no_cached = 0\<rparr>,
             \<lparr>next_address = 8192, remaining = 1\<rparr>)"
  by code_simp

text \<open>
  C8: For every arena state with \<open>used\<close> non-empty, \<^verbatim>\<open>deallocate_block\<close> moves exactly the
  top block of \<open>used\<close> onto \<open>cached\<close> by \<^verbatim>\<open>steal_top\<close>, decrements the used counter by one,
  increments the cached counter by one, makes no call on the allocator and cannot fail;
  all other blocks of both stacks are unchanged.

  The call returns the arena in which the top of \<open>used\<close> has become the top of \<open>cached\<close>
  and the two counters have moved by one; the allocator is the one before the call.
\<close>

theorem deallocate_block_moves_top:
  assumes "used a = block # rest"
  shows "deallocate_block a =
           Some (a\<lparr>used := rest, cached := block # cached a,
                   no_used := no_used a - 1, no_cached := no_cached a + 1\<rparr>)
         \<and> steal_top (cached a) (used a) = Some (block # cached a, rest)
         \<and> map_option allocator (deallocate_block a) = Some (allocator a)"
  using assms deallocate_block_eq [OF assms] by (simp add: steal_top_def)

theorem deallocate_block_moves_top_witness:
  "used \<lparr>allocator = two_blocks, used = [\<lparr>memory = 8192, size_mb = 4096\<rparr>, \<lparr>memory = 4096, size_mb = 4096\<rparr>],
         cached = [], no_used = 2, no_cached = 0\<rparr>
     = \<lparr>memory = 8192, size_mb = 4096\<rparr> # [\<lparr>memory = 4096, size_mb = 4096\<rparr>]
   \<and> deallocate_block \<lparr>allocator = two_blocks, used = [\<lparr>memory = 8192, size_mb = 4096\<rparr>, \<lparr>memory = 4096, size_mb = 4096\<rparr>],
         cached = [], no_used = 2, no_cached = 0\<rparr>
     = Some \<lparr>allocator = two_blocks, used = [\<lparr>memory = 4096, size_mb = 4096\<rparr>],
         cached = [\<lparr>memory = 8192, size_mb = 4096\<rparr>], no_used = 1, no_cached = 1\<rparr>"
  using deallocate_block_moves_top [of "\<lparr>allocator = two_blocks, used = [\<lparr>memory = 8192, size_mb = 4096\<rparr>, \<lparr>memory = 4096, size_mb = 4096\<rparr>],
         cached = [], no_used = 2, no_cached = 0\<rparr>" "\<lparr>memory = 8192, size_mb = 4096\<rparr>" "[\<lparr>memory = 4096, size_mb = 4096\<rparr>]"]
  by simp

text \<open>
  C9: A block built from an address and a size stores them; a block built from
  \<open>begin \<le> end\<close> has the address \<open>begin\<close> and the size \<open>end - begin\<close>; the default block is
  empty (null address, size zero).

  The first two forms do so (\<open>memory_block_mem_size_fields\<close>,
  \<open>memory_block_begin_end_fields\<close>). The default constructor passes on the member \<^verbatim>\<open>size\<close>
  that it is about to initialise: where that read yields 7, the size of the block is 7.
\<close>

theorem memory_block_default_size:
  "memory_block_default 7 = \<lparr>memory = 0, size_mb = 7\<rparr> \<and> size_mb (memory_block_default 7) \<noteq> 0"
  by (simp add: memory_block_default_def memory_block_mem_size_def)

text \<open>
  C10: \<^verbatim>\<open>swap(a, b)\<close> exchanges exactly the used stack, the cached stack and the two
  counters of \<open>a\<close> and \<open>b\<close>; each arena keeps its own allocator.
\<close>

theorem swap_arena_exchanges:
  "swap_arena a b =
     (a\<lparr>used := used b, cached := cached b, no_used := no_used b, no_cached := no_cached b\<rparr>,
      b\<lparr>used := used a, cached := cached a, no_used := no_used a, no_cached := no_cached a\<rparr>)
   \<and> allocator (fst (swap_arena a b)) = allocator a
   \<and> allocator (snd (swap_arena a b)) = allocator b"
  by (simp add: swap_arena_def adl_swap_def)

end
